theory Spec2Isabelle
  imports Complex_Main "HOL-Library.Multiset" "HOL-Library.AList"
begin

section \<open>Values\<close>

text \<open>
  The values \<^verbatim>\<open>response.json()\<close> can produce.  A Python \<^verbatim>\<open>dict\<close> keeps its keys in
  insertion order, so a mapping is an association list; numbers are the reals they
  denote (rounding of floating-point values is not part of this development).
\<close>

datatype json =
    JNull
  | JBool bool
  | JNum real
  | JStr string
  | JList "json list"
  | JObj "(string \<times> json) list"

text \<open>The exceptions that occur in \<^verbatim>\<open>widget.py\<close> and in the library calls it makes.
  \<open>Unmodelled\<close> marks library behaviour that lies outside the fragment of pandas
  described here; no statement below is about an input that reaches it.\<close>

datatype error =
    AttributeError
  | TypeError
  | KeyError
  | ValueError
  | ConnectionError
  | JSONDecodeError
  | Unmodelled

text \<open>Sequencing of fallible steps: an exception ends the computation.\<close>

definition bind_res :: "error + 'a \<Rightarrow> ('a \<Rightarrow> error + 'b) \<Rightarrow> error + 'b" where
  "bind_res r f = (case r of Inl e \<Rightarrow> Inl e | Inr x \<Rightarrow> f x)"

section \<open>Fetcher\<close>






section \<open>Report caption\<close>

definition startswith :: "string \<Rightarrow> string \<Rightarrow> bool" where
  "startswith s p \<longleftrightarrow> take (length p) s = p"

text \<open>The caption built in \<^verbatim>\<open>add_title_and_table\<close>, lines 178 to 185.  The two position
  selections are the module-level variables \<^verbatim>\<open>batting_position\<close> and
  \<^verbatim>\<open>fielding_position\<close>; a string is true in a condition when it is not empty.\<close>

definition filter_text :: "string \<Rightarrow> string \<times> string \<times> string \<Rightarrow> string \<Rightarrow> string \<Rightarrow> string" where
  "filter_text title filters batting_position fielding_position =
     (case filters of (team, player, sortcol) \<Rightarrow>
        (let text0 = ''Filters: Team = '' @ team @ '', Player = '' @ player @ '', Sort = '' @ sortcol in
         if startswith title ''Batting'' \<and> batting_position \<noteq> [] then
           text0 @ '', Position = '' @ batting_position
         else if startswith title ''Fielding'' \<and> fielding_position \<noteq> [] then
           text0 @ '', Position = '' @ fielding_position
         else text0))"

section \<open>Python operations on values\<close>

text \<open>\<^verbatim>\<open>d.get(k, default)\<close>: only a \<^verbatim>\<open>dict\<close> has the method; on any other value the
  attribute lookup raises \<^verbatim>\<open>AttributeError\<close>.\<close>

definition py_get :: "json \<Rightarrow> string \<Rightarrow> json \<Rightarrow> error + json" where
  "py_get d k dflt =
     (case d of
        JObj kvs \<Rightarrow> Inr (case map_of kvs k of None \<Rightarrow> dflt | Some v \<Rightarrow> v)
      | _ \<Rightarrow> Inl AttributeError)"

text \<open>\<^verbatim>\<open>for x in v\<close>: a list yields its elements, a \<^verbatim>\<open>dict\<close> its keys, a string its
  characters; \<^verbatim>\<open>None\<close>, booleans and numbers are not iterable.\<close>

definition py_iter :: "json \<Rightarrow> error + json list" where
  "py_iter v =
     (case v of
        JList xs \<Rightarrow> Inr xs
      | JObj kvs \<Rightarrow> Inr (map (\<lambda>kv. JStr (fst kv)) kvs)
      | JStr s \<Rightarrow> Inr (map (\<lambda>c. JStr [c]) s)
      | _ \<Rightarrow> Inl TypeError)"

text \<open>\<^verbatim>\<open>d[k] = v\<close> with a string key: a \<^verbatim>\<open>dict\<close> replaces the value of an existing key
  where it stands, or appends the new key; every other value raises \<^verbatim>\<open>TypeError\<close>.\<close>

definition py_setitem :: "json \<Rightarrow> string \<Rightarrow> json \<Rightarrow> error + json" where
  "py_setitem d k v =
     (case d of
        JObj kvs \<Rightarrow> Inr (JObj (AList.update k v kvs))
      | _ \<Rightarrow> Inl TypeError)"

definition is_obj :: "json \<Rightarrow> bool" where
  "is_obj v = (case v of JObj _ \<Rightarrow> True | _ \<Rightarrow> False)"

definition items :: "json \<Rightarrow> (string \<times> json) list" where
  "items v = (case v of JObj kvs \<Rightarrow> kvs | _ \<Rightarrow> [])"

section \<open>Tables\<close>

text \<open>
  A \<^verbatim>\<open>DataFrame\<close>: the column labels in order, and the rows in order, each row with
  its index label and one cell per column.  A cell holds a Python object or the
  missing-value marker \<^verbatim>\<open>NaN\<close>.
\<close>

datatype cell = Val json | NaN

record dataframe =
  columns :: "string list"
  rows :: "(nat \<times> cell list) list"

text \<open>The keys of a list of records, each once, in the order of first appearance.\<close>

fun ordered_union :: "string list \<Rightarrow> string list \<Rightarrow> string list" where
  "ordered_union seen [] = seen"
| "ordered_union seen (k # ks) =
     (if k \<in> set seen then ordered_union seen ks else ordered_union (seen @ [k]) ks)"

definition record_cell :: "(string \<times> json) list \<Rightarrow> string \<Rightarrow> cell" where
  "record_cell r c = (case map_of r c of None \<Rightarrow> NaN | Some v \<Rightarrow> Val v)"

text \<open>
  \<^verbatim>\<open>pd.DataFrame(records)\<close> for a list of \<^verbatim>\<open>dict\<close>s: the columns are the keys in order of
  first appearance, the index is \<open>0, 1, \<dots>\<close>, and a key a record lacks gives \<^verbatim>\<open>NaN\<close>.
  The empty list gives the table with no column and no row.  The constructor applied
  to anything else is outside this development.
\<close>

definition DataFrame_of_records :: "(string \<times> json) list list \<Rightarrow> dataframe" where
  "DataFrame_of_records rs =
     (let cols = ordered_union [] (concat (map (map fst) rs)) in
      \<lparr>columns = cols,
       rows = zip [0 ..< length rs] (map (\<lambda>r. map (record_cell r) cols) rs)\<rparr>)"

definition DataFrame :: "json \<Rightarrow> error + dataframe" where
  "DataFrame v =
     (case v of
        JList rs \<Rightarrow>
          if list_all is_obj rs then Inr (DataFrame_of_records (map items rs))
          else Inl Unmodelled
      | _ \<Rightarrow> Inl Unmodelled)"

section \<open>Record extractors\<close>

text \<open>The argument of \<^verbatim>\<open>pd.DataFrame\<close> in \<^verbatim>\<open>get_batting_stats\<close> and \<^verbatim>\<open>get_pitching_stats\<close>
  (lines 74 and 78), as a function of the value \<^verbatim>\<open>fetch\<close> returned.\<close>

definition stats_player :: "string \<Rightarrow> json \<Rightarrow> error + json" where
  "stats_player category data =
     bind_res (py_get data ''stats'' (JObj [])) (\<lambda>stats.
     bind_res (py_get stats category (JObj [])) (\<lambda>cat.
     py_get cat ''player'' (JList [])))"

definition get_batting_stats :: "json \<Rightarrow> error + dataframe" where
  "get_batting_stats data = bind_res (stats_player ''batting'' data) DataFrame"


text \<open>The inner loop of \<^verbatim>\<open>get_fielding_stats\<close>, lines 86 to 88, with the list \<^verbatim>\<open>players\<close>
  as accumulator.\<close>

fun tag_players :: "json \<Rightarrow> json list \<Rightarrow> json list \<Rightarrow> error + json list" where
  "tag_players position [] players = Inr players"
| "tag_players position (player # rest) players =
     (case py_get position ''position'' JNull of
        Inl e \<Rightarrow> Inl e
      | Inr label \<Rightarrow>
          (case py_setitem player ''position'' label of
             Inl e \<Rightarrow> Inl e
           | Inr tagged \<Rightarrow> tag_players position rest (players @ [tagged])))"

text \<open>The outer loop, lines 83 to 88.\<close>

fun collect_players :: "json list \<Rightarrow> json list \<Rightarrow> error + json list" where
  "collect_players [] players = Inr players"
| "collect_players (position # rest) players =
     (case py_get position ''player'' (JList []) of
        Inl e \<Rightarrow> Inl e
      | Inr player_list \<Rightarrow>
          (case player_list of
             JList ps \<Rightarrow>
               (case tag_players position ps players of
                  Inl e \<Rightarrow> Inl e
                | Inr players' \<Rightarrow> collect_players rest players')
           | _ \<Rightarrow> collect_players rest players))"

text \<open>The list \<^verbatim>\<open>players\<close> when line 89 is reached.\<close>

definition fielding_players :: "json \<Rightarrow> error + json list" where
  "fielding_players data =
     bind_res (py_get data ''stats'' (JObj [])) (\<lambda>stats.
     bind_res (py_get stats ''position'' (JList [])) (\<lambda>groups.
     bind_res (py_iter groups) (\<lambda>positions.
     collect_players positions [])))"

definition get_fielding_stats :: "json \<Rightarrow> error + dataframe" where
  "get_fielding_stats data =
     bind_res (fielding_players data) (\<lambda>players. DataFrame (JList players))"

text \<open>The shapes on which the extractors are meant to work.  A key may be absent at
  every level; where it is present its value has the expected type.\<close>

definition absent_or :: "(json \<Rightarrow> bool) \<Rightarrow> (string \<times> json) list \<Rightarrow> string \<Rightarrow> bool" where
  "absent_or P kvs k = (case map_of kvs k of None \<Rightarrow> True | Some v \<Rightarrow> P v)"



text \<open>A position group is a mapping; its \<^verbatim>\<open>player\<close> field, when it is a list, is a list
  of mappings.\<close>

definition group_shaped :: "json \<Rightarrow> bool" where
  "group_shaped g =
     (is_obj g \<and>
      absent_or (\<lambda>p. case p of JList ps \<Rightarrow> list_all is_obj ps | _ \<Rightarrow> True) (items g) ''player'')"

definition fielding_shaped :: "json \<Rightarrow> bool" where
  "fielding_shaped data =
     (is_obj data \<and>
      absent_or (\<lambda>stats. is_obj stats \<and>
        absent_or (\<lambda>groups. case groups of JList gs \<Rightarrow> list_all group_shaped gs | _ \<Rightarrow> False)
          (items stats) ''position'')
        (items data) ''stats'')"

text \<open>What the specification says the fielding extractor emits: the position groups of
  a payload, and for one group the entries of its player list, each with the key
  \<^verbatim>\<open>position\<close> set to the label of the group, or nothing when the player field is not
  a list.\<close>

definition position_groups :: "json \<Rightarrow> json list" where
  "position_groups data =
     (case map_of (items data) ''stats'' of
        None \<Rightarrow> []
      | Some stats \<Rightarrow>
          (case map_of (items stats) ''position'' of
             Some (JList gs) \<Rightarrow> gs
           | _ \<Rightarrow> []))"

definition group_label :: "json \<Rightarrow> json" where
  "group_label g = (case map_of (items g) ''position'' of None \<Rightarrow> JNull | Some l \<Rightarrow> l)"

definition with_position :: "json \<Rightarrow> json \<Rightarrow> json" where
  "with_position label entry = JObj (AList.update ''position'' label (items entry))"

definition group_records :: "json \<Rightarrow> json list" where
  "group_records g =
     (case map_of (items g) ''player'' of
        Some (JList ps) \<Rightarrow> map (with_position (group_label g)) ps
      | _ \<Rightarrow> [])"

section \<open>Column operations\<close>

text \<open>The cells of one row that stand under the label \<open>c\<close>.\<close>

definition cells_of :: "string list \<Rightarrow> string \<Rightarrow> cell list \<Rightarrow> cell list" where
  "cells_of cols c cells = map snd (filter (\<lambda>lx. fst lx = c) (zip cols cells))"

text \<open>\<^verbatim>\<open>df[c] = df[c].apply(f)\<close>: the cells under the label \<open>c\<close> are replaced, every other
  cell, the labels and the index stay.\<close>

definition apply_column :: "string \<Rightarrow> (cell \<Rightarrow> cell) \<Rightarrow> dataframe \<Rightarrow> dataframe" where
  "apply_column c f df =
     df\<lparr>rows := map (\<lambda>r. (fst r,
            map (\<lambda>lx. if fst lx = c then f (snd lx) else snd lx) (zip (columns df) (snd r))))
          (rows df)\<rparr>"

text \<open>\<^verbatim>\<open>df.drop(columns=cs)\<close>.\<close>

definition drop_columns :: "string list \<Rightarrow> dataframe \<Rightarrow> dataframe" where
  "drop_columns cs df =
     \<lparr>columns = filter (\<lambda>l. l \<notin> set cs) (columns df),
      rows = map (\<lambda>r. (fst r,
               map snd (filter (\<lambda>lx. fst lx \<notin> set cs) (zip (columns df) (snd r)))))
             (rows df)\<rparr>"

text \<open>\<^verbatim>\<open>df[cs]\<close> for a list of labels: for each requested label in turn, every column that
  carries it.\<close>

definition select_columns :: "string list \<Rightarrow> dataframe \<Rightarrow> dataframe" where
  "select_columns cs df =
     \<lparr>columns = concat (map (\<lambda>c. filter (\<lambda>l. l = c) (columns df)) cs),
      rows = map (\<lambda>r. (fst r, concat (map (\<lambda>c. cells_of (columns df) c (snd r)) cs)))
             (rows df)\<rparr>"

text \<open>Renaming of the labels, as done by \<^verbatim>\<open>df.rename(columns=m)\<close> and by an assignment to
  \<^verbatim>\<open>df.columns\<close>.\<close>

definition relabel :: "(string \<Rightarrow> string) \<Rightarrow> dataframe \<Rightarrow> dataframe" where
  "relabel g df = df\<lparr>columns := map g (columns df)\<rparr>"

text \<open>\<^verbatim>\<open>m.get(k, default)\<close> for a dictionary of strings.\<close>

definition dict_get :: "(string \<times> string) list \<Rightarrow> string \<Rightarrow> string \<Rightarrow> string" where
  "dict_get m k dflt = (case map_of m k of None \<Rightarrow> dflt | Some v \<Rightarrow> v)"

text \<open>\<^verbatim>\<open>str.upper()\<close> on the ASCII letters; the keys of the payloads are ASCII.\<close>

definition upper_char :: "char \<Rightarrow> char" where
  "upper_char c =
     (case map_of (zip ''abcdefghijklmnopqrstuvwxyz'' ''ABCDEFGHIJKLMNOPQRSTUVWXYZ'') c of
        None \<Rightarrow> c
      | Some u \<Rightarrow> u)"

definition upper :: "string \<Rightarrow> string" where
  "upper s = map upper_char s"

text \<open>The function applied to the \<^verbatim>\<open>teamname\<close> cells (lines 99, 114, 129):
  \<^verbatim>\<open>x.get("$t") if isinstance(x, dict) else x\<close>.\<close>

definition unwrap :: "cell \<Rightarrow> cell" where
  "unwrap x =
     (case x of
        Val (JObj kvs) \<Rightarrow> (case map_of kvs ''$t'' of None \<Rightarrow> Val JNull | Some v \<Rightarrow> Val v)
      | _ \<Rightarrow> x)"

text \<open>
  \<^verbatim>\<open>pd.to_numeric(column, errors="coerce")\<close>, cell by cell.  How the library reads a
  string as a number is the parameter \<open>to_float\<close> (\<open>None\<close> when the string is not a
  number); numbers stay, booleans count as 1 and 0, and everything else becomes
  \<^verbatim>\<open>NaN\<close>.
\<close>

definition to_numeric :: "(string \<Rightarrow> real option) \<Rightarrow> cell \<Rightarrow> cell" where
  "to_numeric to_float x =
     (case x of
        NaN \<Rightarrow> NaN
      | Val (JNum n) \<Rightarrow> Val (JNum n)
      | Val (JBool b) \<Rightarrow> Val (JNum (if b then 1 else 0))
      | Val (JStr s) \<Rightarrow> (case to_float s of None \<Rightarrow> NaN | Some n \<Rightarrow> Val (JNum n))
      | Val _ \<Rightarrow> NaN)"

text \<open>A reader of plain decimal literals (optional sign, digits, optional point and
  digits), as one instance of the conversion.\<close>

definition digit_of :: "char \<Rightarrow> nat option" where
  "digit_of c = map_of (zip ''0123456789'' [0, 1, 2, 3, 4, 5, 6, 7, 8, 9]) c"

fun digits_value :: "nat \<Rightarrow> string \<Rightarrow> nat option" where
  "digits_value acc [] = Some acc"
| "digits_value acc (c # cs) =
     (case digit_of c of None \<Rightarrow> None | Some d \<Rightarrow> digits_value (10 * acc + d) cs)"

definition read_decimal :: "string \<Rightarrow> real option" where
  "read_decimal s =
     (let negative = (take 1 s = ''-'');
          body = (if negative then drop 1 s else s);
          whole = takeWhile (\<lambda>c. c \<noteq> CHR ''.'') body;
          frac = drop 1 (dropWhile (\<lambda>c. c \<noteq> CHR ''.'') body)
      in if whole = [] \<and> frac = [] then None
         else (case (digits_value 0 whole, digits_value 0 frac) of
                 (Some i, Some f) \<Rightarrow>
                   Some ((if negative then - 1 else 1) * (real i + real f / 10 ^ length frac))
               | _ \<Rightarrow> None))"

section \<open>Table normalizers\<close>

text \<open>
  The normalizers assign to a column of the table they are given, so tables are
  objects in a store: a reference is a position in the list of all tables, and a new
  table is put at the end.
\<close>

type_synonym store = "dataframe list"

definition alloc :: "store \<Rightarrow> dataframe \<Rightarrow> store \<times> nat" where
  "alloc s df = (s @ [df], length s)"

text \<open>The loop over \<^verbatim>\<open>numeric_cols\<close> (lines 105 to 107), on the table \<^verbatim>\<open>df\<close> names: the
  table when the loop ends, and the exception if one ended it.  When two columns
  carry the label, \<^verbatim>\<open>df[col]\<close> is a table and \<^verbatim>\<open>pd.to_numeric\<close> raises \<^verbatim>\<open>TypeError\<close>.\<close>

fun coerce_numeric ::
  "(string \<Rightarrow> real option) \<Rightarrow> string list \<Rightarrow> dataframe \<Rightarrow> dataframe \<times> error option" where
  "coerce_numeric to_float [] df = (df, None)"
| "coerce_numeric to_float (col # cols) df =
     (if col \<in> set (columns df) then
        (if 1 < count_list (columns df) col then (df, Some TypeError)
         else coerce_numeric to_float cols (apply_column col (to_numeric to_float) df))
      else coerce_numeric to_float cols df)"

text \<open>
  The common body of \<^verbatim>\<open>clean_batting_df\<close>, \<^verbatim>\<open>clean_pitching_df\<close> and
  \<^verbatim>\<open>clean_fielding_df\<close>, which differ in their four constant tables only.  The
  assignment to \<^verbatim>\<open>df["teamname"]\<close> acts on the table of the caller; \<^verbatim>\<open>df.drop\<close>,
  \<^verbatim>\<open>df.rename\<close> and the final selection each make a new table, and the assignments to
  \<^verbatim>\<open>df.columns\<close> and to the numeric columns act on the table \<^verbatim>\<open>df\<close> names by then.
  The result is the store afterwards with the reference returned, or the exception.
\<close>

definition clean_df ::
  "string list \<Rightarrow> (string \<times> string) list \<Rightarrow> string list \<Rightarrow> string list \<Rightarrow>
   (string \<Rightarrow> real option) \<Rightarrow> store \<Rightarrow> nat \<Rightarrow> store \<times> (error + nat)" where
  "clean_df drop_list rename_map numeric_cols order to_float s df =
     (let s1 = (if ''teamname'' \<in> set (columns (s ! df))
                then s[df := apply_column ''teamname'' unwrap (s ! df)] else s);
          (s2, df2) = alloc s1
             (drop_columns (filter (\<lambda>col. col \<in> set (columns (s1 ! df))) drop_list) (s1 ! df));
          (s3, df3) = alloc s2 (relabel (\<lambda>col. dict_get rename_map col col) (s2 ! df2));
          s4 = s3[df3 := relabel (\<lambda>col. dict_get rename_map col (upper col)) (s3 ! df3)]
      in case coerce_numeric to_float numeric_cols (s4 ! df3) of
           (coerced, Some e) \<Rightarrow> (s4[df3 := coerced], Inl e)
         | (coerced, None) \<Rightarrow>
             (let s5 = s4[df3 := coerced];
                  (s6, df6) = alloc s5
                    (select_columns
                       (filter (\<lambda>col. col \<in> set (columns (s5 ! df3))) order
                        @ filter (\<lambda>col. col \<notin> set order) (columns (s5 ! df3)))
                       (s5 ! df3))
              in (s6, Inr df6)))"

definition batting_order :: "string list" where
  "batting_order = [''PLAYER'', ''JERSEY'', ''TEAM'', ''P'', ''AVG'', ''AB'', ''RUNS'', ''HITS'',
     ''HR'', ''RBI'', ''BB'', ''HP'', ''SO'', ''SF'', ''SB'', ''DP'']"



definition clean_batting_df ::
  "(string \<Rightarrow> real option) \<Rightarrow> store \<Rightarrow> nat \<Rightarrow> store \<times> (error + nat)" where
  "clean_batting_df =
     clean_df [''playerlinkid'', ''playerid'', ''firstname'', ''lastname'']
       [(''playername'', ''PLAYER''), (''teamname'', ''TEAM''), (''jersey'', ''JERSEY''),
        (''position'', ''P'')]
       [''AVG'', ''AB'', ''RUNS'', ''HITS'', ''HR'', ''RBI'', ''BB'', ''HP'', ''SO'', ''SF'', ''SB'',
        ''DP'', ''BIB'', ''TRIB'', ''OBP'', ''SLG'']
       batting_order"



text \<open>The table a normalizer returns when it is called on a table of its own, as in
  \<^verbatim>\<open>clean_batting_df(get_batting_stats(SEASON_ID))\<close> (lines 219 to 221).\<close>

definition returned_table ::
  "(store \<Rightarrow> nat \<Rightarrow> store \<times> (error + nat)) \<Rightarrow> dataframe \<Rightarrow> error + dataframe" where
  "returned_table clean df =
     (case clean [df] 0 of
        (s, Inl e) \<Rightarrow> Inl e
      | (s, Inr r) \<Rightarrow> Inr (s ! r))"

text \<open>Every row has one cell per column.\<close>

definition well_formed :: "dataframe \<Rightarrow> bool" where
  "well_formed df = list_all (\<lambda>r. length (snd r) = length (columns df)) (rows df)"

section \<open>Filter and sort engine\<close>

text \<open>The position of the first column labelled \<open>c\<close>, and the cell of a row at a
  position.\<close>

definition column_pos :: "string list \<Rightarrow> string \<Rightarrow> nat" where
  "column_pos cols c = length (takeWhile (\<lambda>l. l \<noteq> c) cols)"

definition cell_at :: "nat \<Rightarrow> nat \<times> cell list \<Rightarrow> cell" where
  "cell_at j r = (if j < length (snd r) then snd r ! j else NaN)"

text \<open>
  \<^verbatim>\<open>df[df[col] == v]\<close> for a string \<open>v\<close>: a missing label raises \<^verbatim>\<open>KeyError\<close>; the rows
  kept are those whose cell is the string \<open>v\<close>, in their order and with their index
  labels.  A label carried by several columns is outside this development.
\<close>

definition select_eq :: "dataframe \<Rightarrow> string \<Rightarrow> string \<Rightarrow> error + dataframe" where
  "select_eq df col v =
     (if col \<notin> set (columns df) then Inl KeyError
      else if count_list (columns df) col \<noteq> 1 then Inl Unmodelled
      else Inr (df\<lparr>rows :=
                  filter (\<lambda>r. cell_at (column_pos (columns df) col) r = Val (JStr v)) (rows df)\<rparr>))"

text \<open>The number a cell holds, if any, and the cells a numeric column can hold (the
  columns \<^verbatim>\<open>is_numeric_dtype\<close> accepts at lines 255, 262 and 268).\<close>

definition numeric_value :: "cell \<Rightarrow> real option" where
  "numeric_value x = (case x of Val (JNum n) \<Rightarrow> Some n | _ \<Rightarrow> None)"

definition is_numeric :: "cell \<Rightarrow> bool" where
  "is_numeric x = (case x of NaN \<Rightarrow> True | Val (JNum n) \<Rightarrow> True | _ \<Rightarrow> False)"

definition is_numeric_dtype :: "dataframe \<Rightarrow> string \<Rightarrow> bool" where
  "is_numeric_dtype df col =
     list_all (\<lambda>r. is_numeric (cell_at (column_pos (columns df) col) r)) (rows df)"

definition row_key :: "dataframe \<Rightarrow> string \<Rightarrow> nat \<times> cell list \<Rightarrow> real option" where
  "row_key df col r = numeric_value (cell_at (column_pos (columns df) col) r)"

text \<open>
  \<^verbatim>\<open>df.sort_values(by=col, ascending=False)\<close>.  The call names no sorting algorithm,
  so the library uses its default kind, which its documentation does not promise to
  be stable; the algorithm is therefore the parameter \<open>argsort\<close>, which maps a list of
  numbers to the list of positions that puts it in ascending order.  The library
  sorts the rows that have a number, taken in reverse, in ascending order, reverses
  the outcome, and puts the rows with a missing number after them in their order.
\<close>

definition sort_rows ::
  "(real list \<Rightarrow> nat list) \<Rightarrow> ('r \<Rightarrow> real option) \<Rightarrow> 'r list \<Rightarrow> 'r list" where
  "sort_rows argsort key rs =
     (let non_nans = rev (filter (\<lambda>r. key r \<noteq> None) rs);
          nans = filter (\<lambda>r. key r = None) rs;
          indexer = argsort (map (\<lambda>r. the (key r)) non_nans)
      in rev (map (\<lambda>k. non_nans ! k) indexer) @ nans)"

text \<open>A missing label raises \<^verbatim>\<open>KeyError\<close>, a label carried by several columns
  \<^verbatim>\<open>ValueError\<close>; sorting a column that is not numeric is outside this development.\<close>

definition sort_values ::
  "(real list \<Rightarrow> nat list) \<Rightarrow> dataframe \<Rightarrow> string \<Rightarrow> error + dataframe" where
  "sort_values argsort df col =
     (if col \<notin> set (columns df) then Inl KeyError
      else if count_list (columns df) col \<noteq> 1 then Inl ValueError
      else if \<not> is_numeric_dtype df col then Inl Unmodelled
      else Inr (df\<lparr>rows := sort_rows argsort (row_key df col) (rows df)\<rparr>))"

text \<open>What an algorithm must do to be a sorting algorithm: return each position once,
  in an order that makes the numbers ascend.\<close>

definition valid_argsort :: "(real list \<Rightarrow> nat list) \<Rightarrow> bool" where
  "valid_argsort argsort \<longleftrightarrow>
     (\<forall>ks. mset (argsort ks) = mset [0 ..< length ks]
           \<and> sorted (map (\<lambda>k. ks ! k) (argsort ks)))"

text \<open>Two sorting algorithms: insertion from the last position to the first, which
  keeps equal numbers in their order, and insertion from the first position to the
  last, which reverses them.\<close>

definition argsort_stable :: "real list \<Rightarrow> nat list" where
  "argsort_stable ks = sort_key (\<lambda>k. ks ! k) [0 ..< length ks]"

definition argsort_reversing :: "real list \<Rightarrow> nat list" where
  "argsort_reversing ks = sort_key (\<lambda>k. ks ! k) (rev [0 ..< length ks])"

text \<open>Lines 275 to 301; \<^verbatim>\<open>copy()\<close> gives a table equal to the one copied.\<close>

definition batting_filtered ::
  "(real list \<Rightarrow> nat list) \<Rightarrow> dataframe \<Rightarrow> string \<Rightarrow> string \<Rightarrow> string \<Rightarrow> string \<Rightarrow> error + dataframe"
  where
  "batting_filtered argsort batting_data batting_team batting_player batting_position batting_sort =
     bind_res (if batting_team \<noteq> ''All'' then select_eq batting_data ''TEAM'' batting_team
               else Inr batting_data) (\<lambda>f1.
     bind_res (if batting_player \<noteq> ''All'' then select_eq f1 ''PLAYER'' batting_player
               else Inr f1) (\<lambda>f2.
     bind_res (if batting_position \<noteq> ''All'' then select_eq f2 ''P'' batting_position
               else Inr f2) (\<lambda>f3.
     if batting_sort \<noteq> ''None'' then sort_values argsort f3 batting_sort else Inr f3)))"

definition fielding_filtered ::
  "(real list \<Rightarrow> nat list) \<Rightarrow> dataframe \<Rightarrow> string \<Rightarrow> string \<Rightarrow> string \<Rightarrow> string \<Rightarrow> error + dataframe"
  where
  "fielding_filtered argsort fielding_data fielding_team fielding_player fielding_position
       fielding_sort =
     bind_res (if fielding_team \<noteq> ''All'' then select_eq fielding_data ''TEAM'' fielding_team
               else Inr fielding_data) (\<lambda>f1.
     bind_res (if fielding_player \<noteq> ''All'' then select_eq f1 ''PLAYER'' fielding_player
               else Inr f1) (\<lambda>f2.
     bind_res (if fielding_position \<noteq> ''All'' then select_eq f2 ''P'' fielding_position
               else Inr f2) (\<lambda>f3.
     if fielding_sort \<noteq> ''None'' then sort_values argsort f3 fielding_sort else Inr f3)))"

definition pitching_filtered ::
  "(real list \<Rightarrow> nat list) \<Rightarrow> dataframe \<Rightarrow> string \<Rightarrow> string \<Rightarrow> string \<Rightarrow> error + dataframe"
  where
  "pitching_filtered argsort pitching_data pitching_team pitching_player pitching_sort =
     bind_res (if pitching_team \<noteq> ''All'' then select_eq pitching_data ''TEAM'' pitching_team
               else Inr pitching_data) (\<lambda>f1.
     bind_res (if pitching_player \<noteq> ''All'' then select_eq f1 ''PLAYER'' pitching_player
               else Inr f1) (\<lambda>f2.
     if pitching_sort \<noteq> ''None'' then sort_values argsort f2 pitching_sort else Inr f2))"

text \<open>The three engines as functions of the same five arguments; the pitching engine
  has no position selection and ignores the one it is given.\<close>

definition is_engine ::
  "(real list \<Rightarrow> nat list) \<Rightarrow>
   (dataframe \<Rightarrow> string \<Rightarrow> string \<Rightarrow> string \<Rightarrow> string \<Rightarrow> error + dataframe) \<Rightarrow> bool" where
  "is_engine argsort engine \<longleftrightarrow>
     engine = batting_filtered argsort
     \<or> engine = fielding_filtered argsort
     \<or> engine = (\<lambda>df team player position. pitching_filtered argsort df team player)"

section \<open>Sample data\<close>

text \<open>The payload of the end-to-end scenario A of the specification.\<close>

definition scenario_a :: json where
  "scenario_a =
     JObj [(''stats'', JObj [(''batting'', JObj [(''player'', JList [
       JObj [(''playername'', JStr ''J Smith''), (''teamname'', JObj [(''$t'', JStr ''Hawks'')]),
             (''jersey'', JStr ''7''), (''avg'', JStr ''.345'')]])])])]"

text \<open>A fielding payload as in scenario B: one group whose \<^verbatim>\<open>player\<close> field is a single
  mapping, and one whose \<^verbatim>\<open>player\<close> field is a list of two entries.\<close>

definition scenario_b :: json where
  "scenario_b =
     JObj [(''stats'', JObj [(''position'', JList [
       JObj [(''position'', JStr ''C''), (''player'', JObj [(''name'', JStr ''A Lone'')])],
       JObj [(''position'', JStr ''1B''),
             (''player'', JList [JObj [(''name'', JStr ''B One'')],
                                 JObj [(''name'', JStr ''C Two'')]])]])])]"

text \<open>The table extracted from scenario A, before normalization.\<close>

definition raw_batting :: dataframe where
  "raw_batting =
     \<lparr>columns = [''playername'', ''teamname'', ''jersey'', ''avg''],
      rows = [(0, [Val (JStr ''J Smith''), Val (JObj [(''$t'', JStr ''Hawks'')]),
                   Val (JStr ''7''), Val (JStr ''.345'')])]\<rparr>"

text \<open>A normalized batting table with two players of the same team and the same
  average, one with other average, and its two rows of equal average in both orders.\<close>

definition tied_batting :: dataframe where
  "tied_batting =
     \<lparr>columns = [''PLAYER'', ''TEAM'', ''P'', ''AVG''],
      rows = [(0, [Val (JStr ''A Able''), Val (JStr ''Hawks''), Val (JStr ''C''), Val (JNum 0.3)]),
              (1, [Val (JStr ''B Baker''), Val (JStr ''Hawks''), Val (JStr ''1B''), Val (JNum 0.3)])]\<rparr>"

definition tied_batting_swapped :: dataframe where
  "tied_batting_swapped =
     \<lparr>columns = [''PLAYER'', ''TEAM'', ''P'', ''AVG''],
      rows = [(1, [Val (JStr ''B Baker''), Val (JStr ''Hawks''), Val (JStr ''1B''), Val (JNum 0.3)]),
              (0, [Val (JStr ''A Able''), Val (JStr ''Hawks''), Val (JStr ''C''), Val (JNum 0.3)])]\<rparr>"

section \<open>Properties of the fetcher\<close>




section \<open>Properties of the caption\<close>

text \<open>
  Claim C4, as stated: the position entry is appended only when a specific position
  was selected, so that Batting with team Hawks, player All, position All and sort
  AVG is captioned "Filters: Team = Hawks, Player = All, Sort = AVG".  The condition
  in the code tests that the selection is a non-empty string, which "All" is.
\<close>

theorem caption_all_position_shown:
  "filter_text ''Batting Stats'' (''Hawks'', ''All'', ''AVG'') ''All'' ''All''
     = ''Filters: Team = Hawks, Player = All, Sort = AVG, Position = All''
   \<and> filter_text ''Batting Stats'' (''Hawks'', ''All'', ''AVG'') ''All'' ''All''
     \<noteq> ''Filters: Team = Hawks, Player = All, Sort = AVG''"
  by (simp add: filter_text_def startswith_def)

text \<open>
  Claim C4, amended: the caption lists team, player and sort; the Batting and the
  Fielding section append their position selection whenever it is a non-empty string,
  the sentinel "All" included; the Pitching section never appends one.
\<close>

theorem caption_position:
  "(batting_position \<noteq> [] \<longrightarrow>
      filter_text ''Batting Stats'' (team, player, sortcol) batting_position fielding_position
        = ''Filters: Team = '' @ team @ '', Player = '' @ player @ '', Sort = '' @ sortcol
            @ '', Position = '' @ batting_position)
   \<and> (fielding_position \<noteq> [] \<longrightarrow>
      filter_text ''Fielding Stats'' (team, player, sortcol) batting_position fielding_position
        = ''Filters: Team = '' @ team @ '', Player = '' @ player @ '', Sort = '' @ sortcol
            @ '', Position = '' @ fielding_position)
   \<and> filter_text ''Pitching Stats'' (team, player, sortcol) batting_position fielding_position
        = ''Filters: Team = '' @ team @ '', Player = '' @ player @ '', Sort = '' @ sortcol"
  by (simp add: filter_text_def startswith_def)

theorem caption_position_witness:
  "''C'' \<noteq> [] \<and> ''All'' \<noteq> []
   \<and> filter_text ''Batting Stats'' (''Hawks'', ''All'', ''AVG'') ''C'' ''All''
        = ''Filters: Team = Hawks, Player = All, Sort = AVG, Position = C''
   \<and> filter_text ''Fielding Stats'' (''Hawks'', ''All'', ''None'') ''C'' ''All''
        = ''Filters: Team = Hawks, Player = All, Sort = None, Position = All''
   \<and> filter_text ''Pitching Stats'' (''Hawks'', ''All'', ''ERA'') ''C'' ''All''
        = ''Filters: Team = Hawks, Player = All, Sort = ERA''"
  using caption_position [of "''C''" "''Hawks''" "''All''" "''AVG''" "''All''"]
        caption_position [of "''C''" "''Hawks''" "''All''" "''None''" "''All''"]
        caption_position [of "''C''" "''Hawks''" "''All''" "''ERA''" "''All''"]
  by simp

section \<open>Properties of the record extractors\<close>

lemma tag_players_shaped:
  "is_obj position \<Longrightarrow> list_all is_obj ps \<Longrightarrow>
   tag_players position ps players = Inr (players @ map (with_position (group_label position)) ps)"
proof (induction ps arbitrary: players)
  case Nil
  then show ?case by simp
next
  case (Cons p ps)
  then show ?case
    by (cases position; cases p)
       (simp_all add: is_obj_def py_get_def py_setitem_def with_position_def group_label_def
          items_def split: option.splits)
qed

lemma collect_players_shaped:
  "list_all group_shaped gs \<Longrightarrow>
   collect_players gs players = Inr (players @ concat (map group_records gs))"
proof (induction gs arbitrary: players)
  case Nil
  then show ?case by simp
next
  case (Cons g gs)
  from Cons.prems have g: "group_shaped g" and gs: "list_all group_shaped gs" by simp_all
  from g obtain kvs where kvs: "g = JObj kvs"
    by (cases g) (simp_all add: group_shaped_def is_obj_def)
  show ?case
  proof (cases "map_of kvs ''player''")
    case None
    then show ?thesis using Cons.IH [OF gs] kvs
      by (simp add: py_get_def group_records_def items_def)
  next
    case (Some p)
    show ?thesis
    proof (cases "\<exists>ps. p = JList ps")
      case True
      then obtain ps where ps: "p = JList ps" by blast
      with g kvs Some have "list_all is_obj ps"
        by (simp add: group_shaped_def absent_or_def items_def)
      moreover have "is_obj g" using kvs by (simp add: is_obj_def)
      ultimately have "tag_players g ps players
          = Inr (players @ map (with_position (group_label g)) ps)"
        by (rule tag_players_shaped [rotated])
      then show ?thesis using Cons.IH [OF gs] kvs Some ps
        by (simp add: py_get_def group_records_def items_def)
    next
      case False
      then show ?thesis using Cons.IH [OF gs] kvs Some
        by (cases p) (simp_all add: py_get_def group_records_def items_def)
    qed
  qed
qed

lemma fielding_players_shaped:
  assumes "fielding_shaped data"
  shows "fielding_players data = Inr (concat (map group_records (position_groups data)))"
proof -
  from assms obtain top where top: "data = JObj top"
    by (cases data) (simp_all add: fielding_shaped_def is_obj_def)
  show ?thesis
  proof (cases "map_of top ''stats''")
    case None
    then show ?thesis using top
      by (simp add: fielding_players_def py_get_def bind_res_def py_iter_def position_groups_def
            items_def)
  next
    case (Some stats)
    with assms top obtain skv where skv: "stats = JObj skv"
      by (cases stats) (simp_all add: fielding_shaped_def absent_or_def is_obj_def items_def)
    show ?thesis
    proof (cases "map_of skv ''position''")
      case None
      then show ?thesis using top Some skv
        by (simp add: fielding_players_def py_get_def bind_res_def py_iter_def
              position_groups_def items_def)
    next
      case (Some groups)
      with assms top \<open>map_of top ''stats'' = Some stats\<close> skv
      obtain gs where gs: "groups = JList gs" "list_all group_shaped gs"
        by (cases groups) (simp_all add: fielding_shaped_def absent_or_def is_obj_def items_def)
      show ?thesis using top \<open>map_of top ''stats'' = Some stats\<close> skv Some gs
          collect_players_shaped [OF gs(2), of "[]"]
        by (simp add: fielding_players_def py_get_def bind_res_def py_iter_def
              position_groups_def items_def)
    qed
  qed
qed

lemma group_records_obj: "list_all is_obj (group_records g)"
  by (auto simp: group_records_def with_position_def is_obj_def list_all_iff
           split: option.splits json.splits)






lemma scenario_b_shaped: "fielding_shaped scenario_b"
  by (simp add: scenario_b_def fielding_shaped_def group_shaped_def is_obj_def items_def
        absent_or_def)


text \<open>What \<open>group_records\<close> and \<open>with_position\<close> say, spelled out: a group whose
  \<^verbatim>\<open>player\<close> field is a list gives one record per entry, in order; any other group
  gives none; a record carries the label under \<^verbatim>\<open>position\<close> and is the entry
  elsewhere.\<close>

lemma group_records_list:
  "map_of (items g) ''player'' = Some (JList ps) \<Longrightarrow>
   length (group_records g) = length ps
   \<and> (\<forall>i < length ps. group_records g ! i = with_position (group_label g) (ps ! i))"
  by (simp add: group_records_def)

lemma group_records_not_list:
  "(\<forall>ps. map_of (items g) ''player'' \<noteq> Some (JList ps)) \<Longrightarrow> group_records g = []"
  by (auto simp: group_records_def split: option.splits json.splits)

lemma with_position_lookup:
  "map_of (items (with_position label entry)) k
     = (if k = ''position'' then Some label else map_of (items entry) k)"
  by (simp add: with_position_def items_def update_conv')

text \<open>
  Claim C8: on a fielding payload (the position groups are a list of mappings, and
  the entries of a player list are mappings), the fielding extractor emits, group
  after group, one record per entry of a \<^verbatim>\<open>player\<close> field that is a list, with the key
  \<^verbatim>\<open>position\<close> set to the label of the group, and no record for a group whose
  \<^verbatim>\<open>player\<close> field is not a list; the table it returns is built from these records.
\<close>

theorem fielding_extractor_records:
  assumes "fielding_shaped data"
  shows "fielding_players data = Inr (concat (map group_records (position_groups data)))
         \<and> get_fielding_stats data
             = Inr (DataFrame_of_records
                      (map items (concat (map group_records (position_groups data)))))"
  using fielding_players_shaped [OF assms] group_records_obj
  by (auto simp: get_fielding_stats_def bind_res_def DataFrame_def list_all_iff)

theorem fielding_extractor_records_witness:
  "fielding_shaped scenario_b
   \<and> fielding_players scenario_b
       = Inr [JObj [(''name'', JStr ''B One''), (''position'', JStr ''1B'')],
              JObj [(''name'', JStr ''C Two''), (''position'', JStr ''1B'')]]"
proof -
  have "concat (map group_records (position_groups scenario_b))
      = [JObj [(''name'', JStr ''B One''), (''position'', JStr ''1B'')],
         JObj [(''name'', JStr ''C Two''), (''position'', JStr ''1B'')]]"
    by (simp add: scenario_b_def position_groups_def group_records_def group_label_def
          with_position_def items_def)
  then show ?thesis
    using fielding_extractor_records [OF scenario_b_shaped] scenario_b_shaped by simp
qed

section \<open>Properties of the normalizers\<close>

text \<open>The table a normalizer returns for a table of its own, without the store.\<close>

lemma returned_table_clean_df:
  "returned_table (clean_df dl rm nc ord tf) df =
     (let df1 = (if ''teamname'' \<in> set (columns df)
                 then apply_column ''teamname'' unwrap df else df);
          df2 = drop_columns (filter (\<lambda>c. c \<in> set (columns df1)) dl) df1;
          df4 = relabel (\<lambda>c. dict_get rm c (upper c)) (relabel (\<lambda>c. dict_get rm c c) df2)
      in case coerce_numeric tf nc df4 of
           (df5, Some e) \<Rightarrow> Inl e
         | (df5, None) \<Rightarrow>
             Inr (select_columns (filter (\<lambda>c. c \<in> set (columns df5)) ord
                                  @ filter (\<lambda>c. c \<notin> set ord) (columns df5)) df5))"
  by (simp add: returned_table_def clean_df_def alloc_def Let_def nth_append
           split: prod.splits option.splits)


lemma read_decimal_345: "read_decimal ''.345'' = Some 0.345"
  by (simp add: read_decimal_def digit_of_def)





lemma scenario_a_extracted: "get_batting_stats scenario_a = Inr raw_batting"
  by (simp add: scenario_a_def raw_batting_def get_batting_stats_def stats_player_def py_get_def
        bind_res_def DataFrame_def is_obj_def items_def DataFrame_of_records_def record_cell_def)

text \<open>
  Claim C9: the payload of scenario A, extracted and then normalized, is the table
  with the one row PLAYER = "J Smith", JERSEY = "7", TEAM = "Hawks" (unwrapped) and
  AVG = 0.345 as a number, for every conversion that reads the literal ".345" as
  0.345.
\<close>

theorem scenario_a_normalized:
  assumes tf: "to_float ''.345'' = Some 0.345"
  shows "bind_res (get_batting_stats scenario_a) (returned_table (clean_batting_df to_float))
           = Inr \<lparr>columns = [''PLAYER'', ''JERSEY'', ''TEAM'', ''AVG''],
                  rows = [(0, [Val (JStr ''J Smith''), Val (JStr ''7''), Val (JStr ''Hawks''),
                               Val (JNum 0.345)])]\<rparr>"
proof -
  let ?df0 = "\<lparr>columns = [''playername'', ''teamname'', ''jersey'', ''avg''],
     rows = [(0::nat, [Val (JStr ''J Smith''), Val (JObj [(''$t'', JStr ''Hawks'')]),
                       Val (JStr ''7''), Val (JStr ''.345'')])]\<rparr>"
  let ?df1 = "\<lparr>columns = [''playername'', ''teamname'', ''jersey'', ''avg''],
     rows = [(0::nat, [Val (JStr ''J Smith''), Val (JStr ''Hawks''), Val (JStr ''7''),
                       Val (JStr ''.345'')])]\<rparr>"
  let ?df4 = "\<lparr>columns = [''PLAYER'', ''TEAM'', ''JERSEY'', ''AVG''],
     rows = [(0::nat, [Val (JStr ''J Smith''), Val (JStr ''Hawks''), Val (JStr ''7''),
                       Val (JStr ''.345'')])]\<rparr>"
  let ?df5 = "\<lparr>columns = [''PLAYER'', ''TEAM'', ''JERSEY'', ''AVG''],
     rows = [(0::nat, [Val (JStr ''J Smith''), Val (JStr ''Hawks''), Val (JStr ''7''),
                       Val (JNum 0.345)])]\<rparr>"
  have s1: "(if ''teamname'' \<in> set (columns ?df0)
             then apply_column ''teamname'' unwrap ?df0 else ?df0) = ?df1"
    by (simp add: apply_column_def unwrap_def)
  have s2: "drop_columns (filter (\<lambda>c. c \<in> set (columns ?df1))
              [''playerlinkid'', ''playerid'', ''firstname'', ''lastname'']) ?df1 = ?df1"
    by (simp add: drop_columns_def)
  have s4: "relabel (\<lambda>c. dict_get [(''playername'', ''PLAYER''), (''teamname'', ''TEAM''),
                (''jersey'', ''JERSEY''), (''position'', ''P'')] c (upper c))
              (relabel (\<lambda>c. dict_get [(''playername'', ''PLAYER''), (''teamname'', ''TEAM''),
                (''jersey'', ''JERSEY''), (''position'', ''P'')] c c) ?df1) = ?df4"
    by (simp add: relabel_def dict_get_def upper_def upper_char_def)
  have s5: "coerce_numeric to_float [''AVG'', ''AB'', ''RUNS'', ''HITS'', ''HR'', ''RBI'', ''BB'',
              ''HP'', ''SO'', ''SF'', ''SB'', ''DP'', ''BIB'', ''TRIB'', ''OBP'', ''SLG''] ?df4
            = (?df5, None)"
    by (simp add: apply_column_def to_numeric_def tf)
  have s6: "select_columns (filter (\<lambda>c. c \<in> set (columns ?df5)) batting_order
                            @ filter (\<lambda>c. c \<notin> set batting_order) (columns ?df5)) ?df5
     = \<lparr>columns = [''PLAYER'', ''JERSEY'', ''TEAM'', ''AVG''],
        rows = [(0, [Val (JStr ''J Smith''), Val (JStr ''7''), Val (JStr ''Hawks''),
                     Val (JNum 0.345)])]\<rparr>"
    by (simp add: select_columns_def cells_of_def batting_order_def)
  show ?thesis
    unfolding scenario_a_extracted raw_batting_def bind_res_def clean_batting_df_def
      returned_table_clean_df
    by (simp only: sum.case Let_def s1 s2 s4 s5 s6 prod.case option.case)
qed

theorem scenario_a_normalized_witness:
  "read_decimal ''.345'' = Some 0.345
   \<and> bind_res (get_batting_stats scenario_a) (returned_table (clean_batting_df read_decimal))
       = Inr \<lparr>columns = [''PLAYER'', ''JERSEY'', ''TEAM'', ''AVG''],
              rows = [(0, [Val (JStr ''J Smith''), Val (JStr ''7''), Val (JStr ''Hawks''),
                           Val (JNum 0.345)])]\<rparr>"
  using scenario_a_normalized [of read_decimal] read_decimal_345 by simp

end
